theory Spec2Isabelle
  imports Complex_Main "HOL-Library.AList"
begin

section \<open>JavaScript values\<close>

text \<open>
  The program is a React front end. The data it handles is what \<^verbatim>\<open>JSON.parse\<close>
  yields for a response body, so the model has one type of JavaScript values with the
  operations of the language the three source files use on them: property reads,
  \<^verbatim>\<open>typeof\<close>, truthiness, \<^verbatim>\<open>&&\<close>, \<^verbatim>\<open>||\<close>,
  \<^verbatim>\<open>+\<close>, comparison with \<^verbatim>\<open>0\<close>, \<^verbatim>\<open>Math.abs\<close>,
  and the conversions these operations apply.

  A Number is a double. Its finite values are modelled by the rationals they denote
  (the two zeros are one value: nothing modelled here tells them apart), next to the three
  special values. The result of an addition of two finite doubles is the exact sum, rounded;
  the rounding is taken from the \<open>host\<close> below, so nothing proved here depends on exact arithmetic.
\<close>

datatype jsnum = NaN | NegInf | Fin rat | PosInf

datatype jsval =
    JUndefined
  | JNull
  | JBool bool
  | JNum jsnum
  | JStr string
  | JArr "jsval list"
  | JObj "(string \<times> jsval) list"
  | JFun string

text \<open>
  \<open>JObj ps\<close> is a plain object with the own properties \<open>ps\<close> (read as a finite map: the
  first binding of a name is its value) and prototype \<^verbatim>\<open>Object.prototype\<close>.
  \<open>JFun f\<close> is the built-in function that \<^verbatim>\<open>Object.prototype\<close> holds under the
  name \<open>f\<close>. JSON never contains one (so no member of an object or array is one); the
  accumulator of the category chart inherits them.
\<close>

datatype js_error = TypeError

text \<open>
  What the engine decides and the source does not: how a sum is rounded to a double, the
  text a Number and a built-in function convert to, the Number a string converts to, and the
  message of a thrown error.
\<close>

record host =
  round_double :: "rat \<Rightarrow> jsnum"
  number_to_string :: "jsnum \<Rightarrow> string"
  string_to_number :: "string \<Rightarrow> jsnum"
  function_source :: "string \<Rightarrow> string"
  error_text :: "js_error \<Rightarrow> string"

definition bind_r :: "js_error + 'a \<Rightarrow> ('a \<Rightarrow> js_error + 'b) \<Rightarrow> js_error + 'b" where
  "bind_r m f = (case m of Inl e \<Rightarrow> Inl e | Inr v \<Rightarrow> f v)"

definition map_r :: "('a \<Rightarrow> 'b) \<Rightarrow> js_error + 'a \<Rightarrow> js_error + 'b" where
  "map_r f m = (case m of Inl e \<Rightarrow> Inl e | Inr v \<Rightarrow> Inr (f v))"

subsection \<open>Numbers\<close>

fun num_lt :: "jsnum \<Rightarrow> jsnum \<Rightarrow> bool" where
  "num_lt NaN _ = False"
| "num_lt _ NaN = False"
| "num_lt PosInf _ = False"
| "num_lt _ NegInf = False"
| "num_lt NegInf _ = True"
| "num_lt _ PosInf = True"
| "num_lt (Fin a) (Fin b) = (a < b)"

fun num_add :: "host \<Rightarrow> jsnum \<Rightarrow> jsnum \<Rightarrow> jsnum" where
  "num_add h NaN _ = NaN"
| "num_add h _ NaN = NaN"
| "num_add h PosInf NegInf = NaN"
| "num_add h NegInf PosInf = NaN"
| "num_add h PosInf _ = PosInf"
| "num_add h _ PosInf = PosInf"
| "num_add h NegInf _ = NegInf"
| "num_add h _ NegInf = NegInf"
| "num_add h (Fin a) (Fin b) = round_double h (a + b)"

fun num_abs :: "jsnum \<Rightarrow> jsnum" where
  "num_abs NaN = NaN"
| "num_abs NegInf = PosInf"
| "num_abs PosInf = PosInf"
| "num_abs (Fin a) = Fin \<bar>a\<bar>"

subsection \<open>Truthiness, typeof, property reads\<close>

fun truthy :: "jsval \<Rightarrow> bool" where
  "truthy JUndefined = False"
| "truthy JNull = False"
| "truthy (JBool b) = b"
| "truthy (JNum n) = (n \<noteq> NaN \<and> n \<noteq> Fin 0)"
| "truthy (JStr s) = (s \<noteq> [])"
| "truthy (JArr xs) = True"
| "truthy (JObj ps) = True"
| "truthy (JFun f) = True"

fun typeof :: "jsval \<Rightarrow> string" where
  "typeof JUndefined = ''undefined''"
| "typeof JNull = ''object''"
| "typeof (JBool b) = ''boolean''"
| "typeof (JNum n) = ''number''"
| "typeof (JStr s) = ''string''"
| "typeof (JArr xs) = ''object''"
| "typeof (JObj ps) = ''object''"
| "typeof (JFun f) = ''function''"

text \<open>
  The property names the source reads from data. None of them is a property of
  \<^verbatim>\<open>Object.prototype\<close>, \<^verbatim>\<open>Array.prototype\<close>, \<^verbatim>\<open>Function.prototype\<close>
  or of the wrapper prototypes of the primitives, so a read finds an own property of a plain object or
  \<^verbatim>\<open>undefined\<close>; on \<^verbatim>\<open>null\<close> and \<^verbatim>\<open>undefined\<close> it throws.
\<close>

datatype key = Date | Description | Category | Amount | Detail

fun field_name :: "key \<Rightarrow> string" where
  "field_name Date = ''date''"
| "field_name Description = ''description''"
| "field_name Category = ''category''"
| "field_name Amount = ''amount''"
| "field_name Detail = ''detail''"

fun get_prop :: "jsval \<Rightarrow> key \<Rightarrow> js_error + jsval" where
  "get_prop JUndefined f = Inl TypeError"
| "get_prop JNull f = Inl TypeError"
| "get_prop (JObj ps) f = Inr (case map_of ps (field_name f) of Some v \<Rightarrow> v | None \<Rightarrow> JUndefined)"
| "get_prop _ f = Inr JUndefined"

text \<open>\<^verbatim>\<open>a && b\<close>: the value of \<open>a\<close> when it is falsy, else that of \<open>b\<close>;
  \<open>b\<close> is not evaluated (and cannot throw) in the first case.\<close>

definition and_also :: "js_error + jsval \<Rightarrow> js_error + jsval \<Rightarrow> js_error + jsval" where
  "and_also a b = (case a of Inl e \<Rightarrow> Inl e | Inr v \<Rightarrow> if truthy v then b else Inr v)"

text \<open>\<^verbatim>\<open>a || b\<close> on values.\<close>

definition or_else :: "jsval \<Rightarrow> jsval \<Rightarrow> jsval" where
  "or_else a b = (if truthy a then a else b)"

subsection \<open>Conversions\<close>

text \<open>
  \<^verbatim>\<open>ToString\<close>. An array joins the strings of its elements with commas,
  \<^verbatim>\<open>null\<close> and \<^verbatim>\<open>undefined\<close> elements giving the empty string.
  A plain object converts through \<^verbatim>\<open>Object.prototype.toString\<close> unless it has
  an own property \<^verbatim>\<open>toString\<close>: that one, parsed from JSON, is not callable, is skipped,
  \<^verbatim>\<open>valueOf\<close> returns no primitive, and the conversion throws.
\<close>

fun to_str :: "host \<Rightarrow> jsval \<Rightarrow> js_error + string"
  and join_elems :: "host \<Rightarrow> jsval list \<Rightarrow> js_error + string" where
  "to_str h JUndefined = Inr ''undefined''"
| "to_str h JNull = Inr ''null''"
| "to_str h (JBool b) = Inr (if b then ''true'' else ''false'')"
| "to_str h (JNum n) = Inr (number_to_string h n)"
| "to_str h (JStr s) = Inr s"
| "to_str h (JFun f) = Inr (function_source h f)"
| "to_str h (JObj ps) =
     (if ''toString'' \<in> fst ` set ps then Inl TypeError else Inr ''[object Object]'')"
| "to_str h (JArr xs) = join_elems h xs"
| "join_elems h [] = Inr []"
| "join_elems h (x # xs) =
     bind_r (if x = JUndefined \<or> x = JNull then Inr [] else to_str h x) (\<lambda>s.
       if xs = [] then Inr s else map_r (\<lambda>t. s @ '','' @ t) (join_elems h xs))"

text \<open>\<^verbatim>\<open>ToPrimitive\<close>: an object, array or function becomes its string (for these
  values \<^verbatim>\<open>valueOf\<close> never yields a primitive, whatever the hint).\<close>

fun to_primitive :: "host \<Rightarrow> jsval \<Rightarrow> js_error + jsval" where
  "to_primitive h (JArr xs) = map_r JStr (to_str h (JArr xs))"
| "to_primitive h (JObj ps) = map_r JStr (to_str h (JObj ps))"
| "to_primitive h (JFun f) = map_r JStr (to_str h (JFun f))"
| "to_primitive h v = Inr v"

text \<open>\<^verbatim>\<open>ToNumber\<close>.\<close>

fun prim_to_number :: "host \<Rightarrow> jsval \<Rightarrow> jsnum" where
  "prim_to_number h JUndefined = NaN"
| "prim_to_number h JNull = Fin 0"
| "prim_to_number h (JBool b) = (if b then Fin 1 else Fin 0)"
| "prim_to_number h (JNum n) = n"
| "prim_to_number h (JStr s) = string_to_number h s"
| "prim_to_number h _ = NaN"

definition to_number :: "host \<Rightarrow> jsval \<Rightarrow> js_error + jsnum" where
  "to_number h v = map_r (prim_to_number h) (to_primitive h v)"

text \<open>\<^verbatim>\<open>a + b\<close>: concatenation when either primitive is a string, else addition of Numbers.\<close>

definition js_plus :: "host \<Rightarrow> jsval \<Rightarrow> jsval \<Rightarrow> js_error + jsval" where
  "js_plus h a b =
     bind_r (to_primitive h a) (\<lambda>pa. bind_r (to_primitive h b) (\<lambda>pb.
       if typeof pa = ''string'' \<or> typeof pb = ''string''
       then bind_r (to_str h pa) (\<lambda>sa. bind_r (to_str h pb) (\<lambda>sb. Inr (JStr (sa @ sb))))
       else Inr (JNum (num_add h (prim_to_number h pa) (prim_to_number h pb)))))"

text \<open>\<^verbatim>\<open>v > 0\<close>, \<^verbatim>\<open>v < 0\<close> and \<^verbatim>\<open>Math.abs(v)\<close>: \<open>v\<close> is converted to a Number.\<close>

definition js_gt_zero :: "host \<Rightarrow> jsval \<Rightarrow> js_error + jsval" where
  "js_gt_zero h v = map_r (\<lambda>n. JBool (num_lt (Fin 0) n)) (to_number h v)"

definition js_lt_zero :: "host \<Rightarrow> jsval \<Rightarrow> js_error + jsval" where
  "js_lt_zero h v = map_r (\<lambda>n. JBool (num_lt n (Fin 0))) (to_number h v)"

definition math_abs :: "host \<Rightarrow> jsval \<Rightarrow> js_error + jsval" where
  "math_abs h v = map_r (\<lambda>n. JNum (num_abs n)) (to_number h v)"

subsection \<open>Array.prototype.filter and reduce, with a callback that may throw\<close>

fun filter_r :: "(jsval \<Rightarrow> js_error + jsval) \<Rightarrow> jsval list \<Rightarrow> js_error + jsval list" where
  "filter_r p [] = Inr []"
| "filter_r p (x # xs) =
     bind_r (p x) (\<lambda>v. map_r (\<lambda>ys. if truthy v then x # ys else ys) (filter_r p xs))"

fun reduce_r :: "('b \<Rightarrow> jsval \<Rightarrow> js_error + 'b) \<Rightarrow> 'b \<Rightarrow> jsval list \<Rightarrow> js_error + 'b" where
  "reduce_r f acc [] = Inr acc"
| "reduce_r f acc (x # xs) = bind_r (f acc x) (\<lambda>acc'. reduce_r f acc' xs)"

section \<open>The Validator (App.jsx, validTransactions)\<close>

text \<open>
  The callback of the filter. \<^verbatim>\<open>typeof tx.amount === 'number' && !isNaN(tx.amount)\<close>
  is one conjunct here: \<^verbatim>\<open>isNaN\<close> is reached for a Number only, where it converts nothing.
\<close>

definition keeps :: "jsval \<Rightarrow> js_error + jsval" where
  "keeps tx =
     and_also (Inr tx)
    (and_also (Inr (JBool (typeof tx = ''object'')))
    (and_also (map_r (\<lambda>d. JBool (d \<noteq> JStr ''Opening Balance'')) (get_prop tx Description))
    (and_also (map_r (\<lambda>a. JBool (case a of JNum n \<Rightarrow> n \<noteq> NaN | _ \<Rightarrow> False)) (get_prop tx Amount))
    (and_also (get_prop tx Date)
    (and_also (get_prop tx Description)
              (get_prop tx Category))))))"

definition validTransactions :: "jsval \<Rightarrow> js_error + jsval list" where
  "validTransactions data = (case data of JArr xs \<Rightarrow> filter_r keeps xs | _ \<Rightarrow> Inr [])"

text \<open>The property of a value read as a total function, for statements about admitted records.\<close>

definition field_of :: "jsval \<Rightarrow> key \<Rightarrow> jsval" where
  "field_of tx f = (case tx of JObj ps \<Rightarrow> (case map_of ps (field_name f) of Some v \<Rightarrow> v | None \<Rightarrow> JUndefined)
                | _ \<Rightarrow> JUndefined)"

text \<open>The admission checks the code applies, as a predicate on values.\<close>

fun number_not_nan :: "jsval \<Rightarrow> bool" where
  "number_not_nan (JNum n) = (n \<noteq> NaN)"
| "number_not_nan _ = False"

definition admitted :: "jsval \<Rightarrow> bool" where
  "admitted tx \<longleftrightarrow>
     truthy tx \<and> typeof tx = ''object'' \<and>
     field_of tx Description \<noteq> JStr ''Opening Balance'' \<and>
     number_not_nan (field_of tx Amount) \<and>
     truthy (field_of tx Date) \<and> truthy (field_of tx Description) \<and> truthy (field_of tx Category)"

text \<open>
  The six admission checks in the words of the specification, whose third check asks for a
  finite amount: a Number that is neither NaN nor an infinity.
\<close>

fun finite_number :: "jsval \<Rightarrow> bool" where
  "finite_number (JNum (Fin q)) = True"
| "finite_number _ = False"

definition spec_admitted :: "jsval \<Rightarrow> bool" where
  "spec_admitted tx \<longleftrightarrow>
     truthy tx \<and> typeof tx = ''object'' \<and>
     field_of tx Description \<noteq> JStr ''Opening Balance'' \<and>
     finite_number (field_of tx Amount) \<and>
     truthy (field_of tx Date) \<and> truthy (field_of tx Description) \<and> truthy (field_of tx Category)"

section \<open>The summary (DashboardMetrics.jsx)\<close>

text \<open>
  \<^verbatim>\<open>transactions.filter(tx => tx.amount > 0).reduce((sum, tx) => sum + tx.amount, 0)\<close>
  and its twin with \<^verbatim>\<open><\<close>. A \<^verbatim>\<open>null\<close> element makes the property read throw;
  an amount that is no Number is converted by the comparison, and concatenated by \<^verbatim>\<open>+\<close>
  when it is a string.
\<close>

definition totalIncome :: "host \<Rightarrow> jsval list \<Rightarrow> js_error + jsval" where
  "totalIncome h txs =
     bind_r (filter_r (\<lambda>tx. bind_r (get_prop tx Amount) (js_gt_zero h)) txs)
       (reduce_r (\<lambda>sum tx. bind_r (get_prop tx Amount) (js_plus h sum)) (JNum (Fin 0)))"

definition totalExpenses :: "host \<Rightarrow> jsval list \<Rightarrow> js_error + jsval" where
  "totalExpenses h txs =
     bind_r (filter_r (\<lambda>tx. bind_r (get_prop tx Amount) (js_lt_zero h)) txs)
       (reduce_r (\<lambda>sum tx. bind_r (get_prop tx Amount) (js_plus h sum)) (JNum (Fin 0)))"

definition netSavings :: "host \<Rightarrow> jsval list \<Rightarrow> js_error + jsval" where
  "netSavings h txs =
     bind_r (totalIncome h txs) (\<lambda>income. bind_r (totalExpenses h txs) (\<lambda>expenses.
       js_plus h income expenses))"

section \<open>The category totals (CategoryPieChart.jsx)\<close>

text \<open>
  The accumulator starts as the object literal \<^verbatim>\<open>{}\<close>: its own properties are the
  buckets (an association list read as a map; the order of the list means nothing), and it inherits
  the properties of \<^verbatim>\<open>Object.prototype\<close>. A read of a name that is no own property finds
  the inherited method of that name, or the prototype itself under \<^verbatim>\<open>__proto__\<close>
  (\<open>JObj []\<close> stands for it: truthy, and \<^verbatim>\<open>[object Object]\<close> as a string).
\<close>

definition object_prototype_methods :: "string list" where
  "object_prototype_methods =
     [''constructor'', ''hasOwnProperty'', ''isPrototypeOf'', ''propertyIsEnumerable'',
      ''toLocaleString'', ''toString'', ''valueOf'',
      ''__defineGetter__'', ''__defineSetter__'', ''__lookupGetter__'', ''__lookupSetter__'']"

definition acc_get :: "(string \<times> jsval) list \<Rightarrow> string \<Rightarrow> jsval" where
  "acc_get acc k =
     (case map_of acc k of
        Some v \<Rightarrow> v
      | None \<Rightarrow>
          if k \<in> set object_prototype_methods then JFun k
          else if k = ''__proto__'' then JObj []
          else JUndefined)"

text \<open>
  An assignment creates or overwrites the own property, except under \<^verbatim>\<open>__proto__\<close>,
  where the inherited setter runs and ignores a primitive (the value assigned here is the result
  of \<^verbatim>\<open>+\<close>, always a primitive).
\<close>

definition acc_set :: "(string \<times> jsval) list \<Rightarrow> string \<Rightarrow> jsval \<Rightarrow> (string \<times> jsval) list" where
  "acc_set acc k v = (if k = ''__proto__'' then acc else AList.update k v acc)"

text \<open>\<^verbatim>\<open>tx => tx.amount < 0 && tx.description !== 'Opening Balance'\<close>\<close>

definition is_expense :: "host \<Rightarrow> jsval \<Rightarrow> js_error + jsval" where
  "is_expense h tx =
     and_also (bind_r (get_prop tx Amount) (js_lt_zero h))
              (map_r (\<lambda>d. JBool (d \<noteq> JStr ''Opening Balance'')) (get_prop tx Description))"

text \<open>
  The reducer: \<^verbatim>\<open>category = tx.category || 'Other'\<close>, then
  \<^verbatim>\<open>acc[category] = (acc[category] || 0) + Math.abs(tx.amount)\<close>. The category is
  converted to a property name.
\<close>

definition add_to_bucket ::
  "host \<Rightarrow> (string \<times> jsval) list \<Rightarrow> jsval \<Rightarrow> js_error + (string \<times> jsval) list" where
  "add_to_bucket h acc tx =
     bind_r (get_prop tx Category) (\<lambda>c.
     bind_r (to_str h (or_else c (JStr ''Other''))) (\<lambda>k.
     bind_r (get_prop tx Amount) (\<lambda>a.
     bind_r (math_abs h a) (\<lambda>m.
     bind_r (js_plus h (or_else (acc_get acc k) (JNum (Fin 0))) m) (\<lambda>v.
     Inr (acc_set acc k v))))))"

definition spendingByCategory :: "host \<Rightarrow> jsval list \<Rightarrow> js_error + (string \<times> jsval) list" where
  "spendingByCategory h txs =
     bind_r (filter_r (is_expense h) txs) (reduce_r (add_to_bucket h) [])"

section \<open>The session (App.jsx)\<close>

text \<open>
  The five state variables of the component (\<open>selectedFile\<close> is the source's \<^verbatim>\<open>file\<close>). A selected file is an opaque handle; \<open>None\<close> is
  \<^verbatim>\<open>null\<close> (the initial value) or \<^verbatim>\<open>undefined\<close> (an empty selection), the
  values \<^verbatim>\<open>!file\<close> rejects. \<open>error\<close> is \<open>None\<close> for \<^verbatim>\<open>null\<close>.
\<close>

datatype file_handle = File string

record session =
  selectedFile :: "file_handle option"
  password :: string
  transactions :: "jsval list"
  loading :: bool
  error :: "string option"

definition initial :: session where
  "initial = \<lparr>selectedFile = None, password = [], transactions = [], loading = False, error = None\<rparr>"

text \<open>\<open>picked\<close> is \<^verbatim>\<open>e.target.files[0]\<close>.\<close>

definition handleFileChange :: "file_handle option \<Rightarrow> session \<Rightarrow> session" where
  "handleFileChange picked s = s\<lparr>selectedFile := picked, transactions := [], error := None\<rparr>"

text \<open>
  What \<^verbatim>\<open>axios.post\<close> is given and what it settles to: the body of a successful response,
  or the value the \<^verbatim>\<open>catch\<close> clause receives, with the parts of it the handler inspects
  (\<^verbatim>\<open>axios.isCancel(err)\<close>, \<^verbatim>\<open>err.code\<close>, \<^verbatim>\<open>err.response\<close> with its status and
  body, whether \<^verbatim>\<open>err.request\<close> is truthy, \<^verbatim>\<open>err.message\<close>).
\<close>

record request =
  req_file :: file_handle
  req_password :: string

record http_response =
  resp_status :: nat
  resp_data :: jsval

record caught =
  err_cancel :: bool
  err_code :: "string option"
  err_response :: "http_response option"
  err_request :: bool
  err_message :: string

datatype outcome = Fulfilled jsval | Rejected caught

text \<open>The decimal digits of a status code, as a template literal prints it.\<close>

fun decimal :: "nat \<Rightarrow> string" where
  "decimal n = (if n < 10 then [''0123456789'' ! n] else decimal (n div 10) @ [''0123456789'' ! (n mod 10)])"

declare decimal.simps [simp del]

text \<open>\<^verbatim>\<open>d?.detail\<close>\<close>

definition optional_detail :: "jsval \<Rightarrow> js_error + jsval" where
  "optional_detail d = (if d = JUndefined \<or> d = JNull then Inr JUndefined else get_prop d Detail)"

text \<open>
  The classification of the \<^verbatim>\<open>catch\<close> clause. The template literal converts the detail to a
  string, which can throw.
\<close>

definition errorMessage :: "host \<Rightarrow> caught \<Rightarrow> js_error + string" where
  "errorMessage h err =
     (if err_cancel err then Inr ''Request cancelled.''
      else if err_code err = Some ''ECONNABORTED'' then
        Inr ''The request timed out (90s). The file might be too large or the AI analysis is taking too long.''
      else case err_response err of
        Some r \<Rightarrow>
          bind_r (optional_detail (resp_data r)) (\<lambda>d.
          map_r (\<lambda>t. ''Error: '' @ t)
            (to_str h (or_else d (JStr (''Server responded with status '' @ decimal (resp_status r))))))
      | None \<Rightarrow>
          if err_request err then
            Inr ''Could not connect to the backend server. Please ensure it is running.''
          else Inr (''An error occurred during the request setup: '' @ err_message err))"

text \<open>
  A run of the handler: the state it leaves, the requests it posted, and the error that escaped
  it, if any. The \<^verbatim>\<open>finally\<close> clause runs on every path through the \<^verbatim>\<open>try\<close>.
\<close>

record run =
  final :: session
  sent :: "request list"
  uncaught :: "js_error option"

definition on_catch :: "host \<Rightarrow> caught \<Rightarrow> session \<Rightarrow> session \<times> js_error option" where
  "on_catch h err s =
     (case errorMessage h err of
        Inr msg \<Rightarrow> (s\<lparr>error := Some msg, transactions := [], loading := False\<rparr>, None)
      | Inl e \<Rightarrow> (s\<lparr>loading := False\<rparr>, Some e))"

text \<open>An error thrown inside the \<^verbatim>\<open>try\<close> block, as the \<^verbatim>\<open>catch\<close> clause sees it.\<close>

definition thrown :: "host \<Rightarrow> js_error \<Rightarrow> caught" where
  "thrown h e = \<lparr>err_cancel = False, err_code = None, err_response = None, err_request = False,
     err_message = error_text h e\<rparr>"

definition on_response :: "host \<Rightarrow> jsval \<Rightarrow> session \<Rightarrow> session \<times> js_error option" where
  "on_response h body s =
     (case validTransactions body of
        Inr valid \<Rightarrow>
          ((if length valid > 0 then s\<lparr>transactions := valid, error := None\<rparr>
            else s\<lparr>transactions := [], error :=
              Some ''Analysis complete, but no valid transactions were extracted from this file.''\<rparr>)
           \<lparr>loading := False\<rparr>, None)
      | Inl e \<Rightarrow> on_catch h (thrown h e) s)"

definition handleSubmit :: "host \<Rightarrow> (request \<Rightarrow> outcome) \<Rightarrow> session \<Rightarrow> run" where
  "handleSubmit h post s =
     (case selectedFile s of
        None \<Rightarrow> \<lparr>final = s\<lparr>error := Some ''Please select a file first.''\<rparr>, sent = [], uncaught = None\<rparr>
      | Some f \<Rightarrow>
          let s1 = s\<lparr>loading := True, error := None, transactions := []\<rparr>;
              req = \<lparr>req_file = f, req_password = password s\<rparr>;
              (s2, esc) = (case post req of
                             Fulfilled body \<Rightarrow> on_response h body s1
                           | Rejected err \<Rightarrow> on_catch h err s1)
          in \<lparr>final = s2, sent = [req], uncaught = esc\<rparr>)"

section \<open>Values used in the statements\<close>

text \<open>The amount of a record as a Number, and whether it has one.\<close>

definition amount_of :: "jsval \<Rightarrow> jsnum" where
  "amount_of tx = (case field_of tx Amount of JNum n \<Rightarrow> n | _ \<Rightarrow> NaN)"

definition has_number_amount :: "jsval \<Rightarrow> bool" where
  "has_number_amount tx = (case field_of tx Amount of JNum n \<Rightarrow> True | _ \<Rightarrow> False)"

text \<open>The sum of a list of Numbers as the source accumulates it: from \<open>0\<close>, left to right.\<close>

definition sum_of :: "host \<Rightarrow> jsnum list \<Rightarrow> jsnum" where
  "sum_of h ns = foldl (num_add h) (Fin 0) ns"

text \<open>A value that is a Number at least \<open>0\<close> (\<open>+Infinity\<close> included).\<close>

fun nonneg_number :: "jsval \<Rightarrow> bool" where
  "nonneg_number (JNum (Fin q)) = (0 \<le> q)"
| "nonneg_number (JNum PosInf) = True"
| "nonneg_number _ = False"

text \<open>
  An engine to run the definitions on examples. It rounds nothing, prints an integer in decimal
  (and a fraction as numerator and denominator, which no engine does), and parses no numeric string.
\<close>

fun show_number :: "jsnum \<Rightarrow> string" where
  "show_number NaN = ''NaN''"
| "show_number PosInf = ''Infinity''"
| "show_number NegInf = ''-Infinity''"
| "show_number (Fin q) =
     (let (n, d) = quotient_of q;
          i = (if n < 0 then ''-'' else []) @ decimal (nat \<bar>n\<bar>)
      in if d = 1 then i else i @ ''/'' @ decimal (nat d))"

definition sample_host :: host where
  "sample_host = \<lparr>round_double = Fin, number_to_string = show_number,
     string_to_number = (\<lambda>s. if s = [] then Fin 0 else NaN),
     function_source = (\<lambda>f. ''function '' @ (if f = ''constructor'' then ''Object'' else f)
       @ ''() { [native code] }''),
     error_text = (\<lambda>e. ''TypeError'')\<rparr>"

definition transaction :: "string \<Rightarrow> string \<Rightarrow> string \<Rightarrow> jsnum \<Rightarrow> jsval" where
  "transaction d l c a =
     JObj [(''date'', JStr d), (''description'', JStr l), (''category'', JStr c), (''amount'', JNum a)]"

definition salary :: jsval where
  "salary = transaction ''2024-01-01'' ''Salary'' ''Income'' (Fin 50000)"

definition groceries :: jsval where
  "groceries = transaction ''2024-01-03'' ''Groceries'' ''Food'' (Fin (- 1500))"

definition opening_balance :: jsval where
  "opening_balance = transaction ''2024-01-02'' ''Opening Balance'' ''Other'' (Fin 10000)"

definition refund :: jsval where
  "refund = transaction ''2024-01-04'' ''Reversal'' ''Food'' (Fin 0)"

definition windfall :: jsval where
  "windfall = transaction ''2024-01-05'' ''Windfall'' ''Income'' PosInf"

definition writeoff :: jsval where
  "writeoff = transaction ''2024-01-06'' ''Write-off'' ''Fees'' NegInf"

definition books :: jsval where
  "books = transaction ''2024-01-07'' ''Books'' ''constructor'' (Fin (- 5))"

text \<open>
  The category totals in the words of the specification: the label of a record is its category,
  or \<^verbatim>\<open>Other\<close> when the category is falsy; a record counts when its amount is below
  \<open>0\<close> and its description is not \<^verbatim>\<open>Opening Balance\<close>; the total of a label
  is the sum of the absolute amounts of the counting records with that label, and a label without
  such a record has no entry. \<open>plain_label\<close> holds of the records whose category is a string
  (or absent) that names no property of \<^verbatim>\<open>Object.prototype\<close>.
\<close>

definition label_of :: "jsval \<Rightarrow> string" where
  "label_of tx = (case field_of tx Category of JStr s \<Rightarrow> if s = [] then ''Other'' else s | _ \<Rightarrow> ''Other'')"

definition plain_label :: "jsval \<Rightarrow> bool" where
  "plain_label tx \<longleftrightarrow>
     (case field_of tx Category of JStr s \<Rightarrow> True | JUndefined \<Rightarrow> True | JNull \<Rightarrow> True | _ \<Rightarrow> False)
     \<and> label_of tx \<notin> set object_prototype_methods \<and> label_of tx \<noteq> ''__proto__''"

definition counted :: "jsval \<Rightarrow> bool" where
  "counted tx \<longleftrightarrow> num_lt (amount_of tx) (Fin 0) \<and> field_of tx Description \<noteq> JStr ''Opening Balance''"

definition bucket_sum :: "host \<Rightarrow> string \<Rightarrow> jsval list \<Rightarrow> jsval option" where
  "bucket_sum h k txs =
     (let ns = map (\<lambda>tx. num_abs (amount_of tx)) (filter (\<lambda>tx. counted tx \<and> label_of tx = k) txs)
      in if ns = [] then None else Some (JNum (sum_of h ns)))"

text \<open>The Number a bucket of the accumulator holds, \<open>0\<close> for a missing one, and the
  accumulators all of whose buckets hold Numbers at least \<open>0\<close>.\<close>

definition held :: "(string \<times> jsval) list \<Rightarrow> string \<Rightarrow> jsnum" where
  "held acc k = (case map_of acc k of Some (JNum n) \<Rightarrow> n | _ \<Rightarrow> Fin 0)"

definition tidy :: "(string \<times> jsval) list \<Rightarrow> bool" where
  "tidy acc \<longleftrightarrow> (\<forall>k v. map_of acc k = Some v \<longrightarrow> (\<exists>n. v = JNum n \<and> nonneg_number (JNum n)))"

text \<open>A session with a file selected, and three failures a server can report.\<close>

definition ready :: session where
  "ready = initial\<lparr>selectedFile := Some (File ''statement.pdf''), password := ''secret''\<rparr>"

definition wrong_password :: caught where
  "wrong_password = \<lparr>err_cancel = False, err_code = Some ''ERR_BAD_REQUEST'',
     err_response = Some \<lparr>resp_status = 401, resp_data = JObj [(''detail'', JStr ''Invalid password'')]\<rparr>,
     err_request = True, err_message = ''Request failed with status code 401''\<rparr>"

definition field_required :: caught where
  "field_required = \<lparr>err_cancel = False, err_code = Some ''ERR_BAD_REQUEST'',
     err_response = Some \<lparr>resp_status = 422,
       resp_data = JObj [(''detail'', JArr [JObj [(''msg'', JStr ''Field required'')]])]\<rparr>,
     err_request = True, err_message = ''Request failed with status code 422''\<rparr>"

definition odd_detail :: caught where
  "odd_detail = \<lparr>err_cancel = False, err_code = Some ''ERR_BAD_RESPONSE'',
     err_response = Some \<lparr>resp_status = 500,
       resp_data = JObj [(''detail'', JObj [(''toString'', JNull)])]\<rparr>,
     err_request = True, err_message = ''Request failed with status code 500''\<rparr>"


section \<open>Unfolding the examples\<close>

lemmas sample_defs = transaction_def salary_def groceries_def opening_balance_def refund_def
  windfall_def writeoff_def books_def

lemmas admission_defs = admitted_def field_of_def

lemmas session_defs = ready_def initial_def wrong_password_def field_required_def odd_detail_def


section \<open>The Validator never throws\<close>

lemma get_prop_object: "truthy tx \<Longrightarrow> typeof tx = ''object'' \<Longrightarrow> get_prop tx f = Inr (field_of tx f)"
  by (cases tx) (simp_all add: field_of_def)

lemma keeps_value: "\<exists>v. keeps tx = Inr v \<and> (truthy v \<longleftrightarrow> admitted tx)"
proof (cases "truthy tx \<and> typeof tx = ''object''")
  case False
  then show ?thesis by (auto simp: keeps_def and_also_def admitted_def)
next
  case True
  then have g: "\<And>f. get_prop tx f = Inr (field_of tx f)" by (simp add: get_prop_object)
  show ?thesis
    using True 
    by (cases "field_of tx Amount")
      (auto simp: keeps_def and_also_def admitted_def g map_r_def)
qed

lemma filter_keeps: "filter_r keeps xs = Inr (filter admitted xs)"
proof (induction xs)
  case Nil
  show ?case by simp
next
  case (Cons x xs)
  obtain v where "keeps x = Inr v" "truthy v \<longleftrightarrow> admitted x" using keeps_value by blast
  with Cons show ?case by (simp add: bind_r_def map_r_def)
qed

lemma validTransactions_filter:
  "validTransactions body = Inr (case body of JArr xs \<Rightarrow> filter admitted xs | _ \<Rightarrow> [])"
  by (cases body) (simp_all add: validTransactions_def filter_keeps)

lemma admitted_amount: "admitted tx \<Longrightarrow> number_not_nan (field_of tx Amount)"
  by (simp add: admitted_def)

section \<open>Claims about the Validator\<close>

text \<open>
  Claim C1, as the code has it. Every element of the Validator's output, for any response body,
  has an \<open>amount\<close> that is a Number and not NaN. (The source tests
  \<^verbatim>\<open>typeof tx.amount === 'number'\<close> and \<^verbatim>\<open>!isNaN(tx.amount)\<close> and nothing else,
  so an infinite amount is admitted: see \<open>validated_amount_infinite\<close>.)
\<close>

theorem validated_amount_not_nan:
  assumes "validTransactions body = Inr out" and "tx \<in> set out"
  shows "\<exists>n. field_of tx Amount = JNum n \<and> n \<noteq> NaN"
proof -
  from assms have "admitted tx"
    by (cases body) (auto simp: validTransactions_filter)
  then have "number_not_nan (field_of tx Amount)" by (rule admitted_amount)
  then show ?thesis by (cases "field_of tx Amount") simp_all
qed

text \<open>An instance of C1: a body with a \<^verbatim>\<open>null\<close> and a salary of 50000.\<close>

theorem validated_amount_not_nan_witness:
  "validTransactions (JArr [JNull, salary]) = Inr [salary] \<and> field_of salary Amount = JNum (Fin 50000)"
proof -
  have v: "validTransactions (JArr [JNull, salary]) = Inr [salary]"
    by (simp add: validTransactions_filter admission_defs sample_defs)
  have "salary \<in> set [salary]" by simp
  from validated_amount_not_nan [OF v this] show ?thesis
    using v by (simp add: sample_defs field_of_def)
qed

text \<open>
  Against C1 as stated (every amount in the output is finite): the body
  \<^verbatim>\<open>[{"date":"2024-01-05","description":"Windfall","category":"Income","amount":1e999}]\<close>
  parses to a record whose amount is \<^verbatim>\<open>Infinity\<close>, and the Validator keeps it.
\<close>

theorem validated_amount_infinite:
  "validTransactions (JArr [windfall]) = Inr [windfall] \<and> field_of windfall Amount = JNum PosInf
   \<and> \<not> finite_number (field_of windfall Amount)"
  by (simp add: validTransactions_filter admission_defs sample_defs)

text \<open>
  Claim C2, as the code has it. For any value whatsoever the Validator returns a sequence and
  throws nothing: the empty sequence when the value is no array, and otherwise exactly the elements
  of the array, in their order, that pass the checks of \<open>admitted\<close>: a non-null object,
  a description other than \<^verbatim>\<open>Opening Balance\<close>, an amount that is a Number and not NaN,
  and a truthy date, description and category. Finiteness of the amount is not among the checks.
\<close>

theorem validTransactions_total:
  "validTransactions body = Inr (case body of JArr xs \<Rightarrow> filter admitted xs | _ \<Rightarrow> [])"
proof (cases body)
  case (JArr xs)
  have "filter_r keeps xs = Inr (filter admitted xs)" by (rule filter_keeps)
  with JArr show ?thesis by (simp add: validTransactions_def)
qed (simp_all add: validTransactions_def)

text \<open>Instances of C2: an array of garbage around two good records, a string, and \<^verbatim>\<open>null\<close>.\<close>

theorem validTransactions_total_witness:
  "validTransactions (JArr [JStr ''x'', groceries, JNull, opening_balance, JArr [], salary, JNum NaN])
     = Inr [groceries, salary]
   \<and> validTransactions (JStr ''not an array'') = Inr [] \<and> validTransactions JNull = Inr []"
  using validTransactions_total [of "JArr [JStr ''x'', groceries, JNull, opening_balance, JArr [], salary, JNum NaN]"]
    validTransactions_total [of "JStr ''not an array''"] validTransactions_total [of JNull]
  by (simp add: admission_defs sample_defs)

text \<open>
  Against C2 as stated (the output is the elements passing the six checks of the specification,
  the third of which asks for a finite amount): a record with amount \<^verbatim>\<open>-Infinity\<close>
  (in JSON, \<^verbatim>\<open>-1e999\<close>) fails \<open>spec_admitted\<close> and is in the output.
\<close>

theorem validTransactions_keeps_infinite:
  "validTransactions (JArr [writeoff]) = Inr [writeoff] \<and> filter spec_admitted [writeoff] = []"
  by (simp add: validTransactions_filter admission_defs spec_admitted_def sample_defs)

section \<open>Numbers through the conversions\<close>

lemma bind_r_simps [simp]: "bind_r (Inr v) f = f v" "bind_r (Inl e) f = Inl e"
  by (simp_all add: bind_r_def)

lemma map_r_simps [simp]: "map_r g (Inr v) = Inr (g v)" "map_r g (Inl e) = Inl e"
  by (simp_all add: map_r_def)

lemma map_r_ident [simp]: "map_r (\<lambda>y. y) m = m"
  by (cases m) simp_all

lemma to_number_num [simp]: "to_number h (JNum n) = Inr n"
  by (simp add: to_number_def map_r_def)

lemma js_gt_zero_num [simp]: "js_gt_zero h (JNum n) = Inr (JBool (num_lt (Fin 0) n))"
  by (simp add: js_gt_zero_def map_r_def)

lemma js_lt_zero_num [simp]: "js_lt_zero h (JNum n) = Inr (JBool (num_lt n (Fin 0)))"
  by (simp add: js_lt_zero_def map_r_def)

lemma math_abs_num [simp]: "math_abs h (JNum n) = Inr (JNum (num_abs n))"
  by (simp add: math_abs_def map_r_def)

lemma js_plus_num [simp]: "js_plus h (JNum a) (JNum b) = Inr (JNum (num_add h a b))"
  by (simp add: js_plus_def)

lemma get_amount:
  assumes "has_number_amount tx"
  shows "get_prop tx Amount = Inr (JNum (amount_of tx))"
proof (cases tx)
  case (JObj ps)
  with assms show ?thesis
    by (auto simp: has_number_amount_def amount_of_def field_of_def split: option.splits jsval.splits)
qed (use assms in \<open>simp_all add: has_number_amount_def field_of_def\<close>)

section \<open>filter and reduce\<close>

lemma filter_r_append:
  "filter_r p (xs @ ys) = bind_r (filter_r p xs) (\<lambda>a. map_r (\<lambda>b. a @ b) (filter_r p ys))"
  by (induction xs) (auto simp: bind_r_def map_r_def split: sum.splits)

lemma filter_r_skip:
  assumes "p r = Inr v" and "\<not> truthy v"
  shows "filter_r p (xs @ r # ys) = filter_r p (xs @ ys)"
  using assms by (simp add: filter_r_append)

lemma filter_r_pure:
  assumes "\<And>x. x \<in> set xs \<Longrightarrow> p x = Inr (JBool (q x))"
  shows "filter_r p xs = Inr (filter q xs)"
  using assms by (induction xs) simp_all

lemma reduce_amounts:
  assumes "\<And>x. x \<in> set xs \<Longrightarrow> has_number_amount x"
  shows "reduce_r (\<lambda>sum tx. bind_r (get_prop tx Amount) (js_plus h sum)) (JNum s) xs
           = Inr (JNum (foldl (num_add h) s (map amount_of xs)))"
  using assms by (induction xs arbitrary: s) (simp_all add: get_amount)

section \<open>The summary\<close>

lemma totalIncome_numbers:
  assumes "\<And>x. x \<in> set txs \<Longrightarrow> has_number_amount x"
  shows "totalIncome h txs = Inr (JNum (sum_of h (filter (num_lt (Fin 0)) (map amount_of txs))))"
proof -
  have "filter_r (\<lambda>tx. bind_r (get_prop tx Amount) (js_gt_zero h)) txs
          = Inr (filter (\<lambda>tx. num_lt (Fin 0) (amount_of tx)) txs)"
    by (rule filter_r_pure) (simp add: assms get_amount)
  moreover have "reduce_r (\<lambda>sum tx. bind_r (get_prop tx Amount) (js_plus h sum)) (JNum (Fin 0))
          (filter (\<lambda>tx. num_lt (Fin 0) (amount_of tx)) txs)
        = Inr (JNum (foldl (num_add h) (Fin 0) (map amount_of (filter (\<lambda>tx. num_lt (Fin 0) (amount_of tx)) txs))))"
    by (rule reduce_amounts) (simp add: assms)
  ultimately show ?thesis
    by (simp add: totalIncome_def sum_of_def filter_map comp_def)
qed

lemma totalExpenses_numbers:
  assumes "\<And>x. x \<in> set txs \<Longrightarrow> has_number_amount x"
  shows "totalExpenses h txs = Inr (JNum (sum_of h (filter (\<lambda>n. num_lt n (Fin 0)) (map amount_of txs))))"
proof -
  have "filter_r (\<lambda>tx. bind_r (get_prop tx Amount) (js_lt_zero h)) txs
          = Inr (filter (\<lambda>tx. num_lt (amount_of tx) (Fin 0)) txs)"
    by (rule filter_r_pure) (simp add: assms get_amount)
  moreover have "reduce_r (\<lambda>sum tx. bind_r (get_prop tx Amount) (js_plus h sum)) (JNum (Fin 0))
          (filter (\<lambda>tx. num_lt (amount_of tx) (Fin 0)) txs)
        = Inr (JNum (foldl (num_add h) (Fin 0) (map amount_of (filter (\<lambda>tx. num_lt (amount_of tx) (Fin 0)) txs))))"
    by (rule reduce_amounts) (simp add: assms)
  ultimately show ?thesis
    by (simp add: totalExpenses_def sum_of_def filter_map comp_def)
qed

text \<open>
  Claim C4. For every list of records whose amounts are Numbers (as all in the Validator's output
  are), \<open>totalIncome\<close> is the sum of the amounts strictly greater than \<open>0\<close>,
  \<open>totalExpenses\<close> the sum of the amounts strictly less than \<open>0\<close>, with its sign, and
  \<open>netSavings\<close> is the one plus the other; nothing throws. The sums are the source's: from
  \<open>0\<close>, in list order, each addition rounded. For the empty list all three are \<open>0\<close>
  (for \<open>netSavings\<close>: as \<open>0 + 0\<close> rounds to \<open>0\<close>).
\<close>

theorem summary_sums:
  assumes "\<forall>tx \<in> set txs. has_number_amount tx" and "round_double h 0 = Fin 0"
  shows "totalIncome h txs = Inr (JNum (sum_of h (filter (\<lambda>n. num_lt (Fin 0) n) (map amount_of txs))))
    \<and> totalExpenses h txs = Inr (JNum (sum_of h (filter (\<lambda>n. num_lt n (Fin 0)) (map amount_of txs))))
    \<and> netSavings h txs =
           Inr (JNum (num_add h (sum_of h (filter (\<lambda>n. num_lt (Fin 0) n) (map amount_of txs)))
                                (sum_of h (filter (\<lambda>n. num_lt n (Fin 0)) (map amount_of txs)))))
    \<and> totalIncome h [] = Inr (JNum (Fin 0)) \<and> totalExpenses h [] = Inr (JNum (Fin 0))
    \<and> netSavings h [] = Inr (JNum (Fin 0))"
proof -
  from assms have n: "\<And>x. x \<in> set txs \<Longrightarrow> has_number_amount x" by blast
  have "netSavings h txs =
           Inr (JNum (num_add h (sum_of h (filter (\<lambda>n. num_lt (Fin 0) n) (map amount_of txs)))
                                (sum_of h (filter (\<lambda>n. num_lt n (Fin 0)) (map amount_of txs)))))"
    by (simp add: netSavings_def totalIncome_numbers [OF n] totalExpenses_numbers [OF n])
  moreover have "totalIncome h [] = Inr (JNum (Fin 0))" by (simp add: totalIncome_def)
  moreover have "totalExpenses h [] = Inr (JNum (Fin 0))" by (simp add: totalExpenses_def)
  moreover have "netSavings h [] = Inr (JNum (Fin 0))"
    using assms(2) by (simp add: netSavings_def totalIncome_def totalExpenses_def)
  ultimately show ?thesis
    using totalIncome_numbers [OF n] totalExpenses_numbers [OF n] by simp
qed

text \<open>An instance of C4: a salary of 50000, groceries of -1500 and a record of amount 0.\<close>

theorem summary_sums_witness:
  "totalIncome sample_host [salary, groceries, refund] = Inr (JNum (Fin 50000))
   \<and> totalExpenses sample_host [salary, groceries, refund] = Inr (JNum (Fin (- 1500)))
   \<and> netSavings sample_host [salary, groceries, refund] = Inr (JNum (Fin 48500))
   \<and> netSavings sample_host [] = Inr (JNum (Fin 0))"
proof -
  have a: "\<forall>tx \<in> set [salary, groceries, refund]. has_number_amount tx"
    by (simp add: has_number_amount_def field_of_def sample_defs)
  have z: "round_double sample_host 0 = Fin 0" by (simp add: sample_host_def)
  from summary_sums [OF a z] show ?thesis
    by (simp add: sum_of_def amount_of_def field_of_def sample_defs sample_host_def)
qed

section \<open>Records that every aggregate skips\<close>

lemma is_expense_number:
  assumes "has_number_amount r"
  shows "is_expense h r = Inr (if num_lt (amount_of r) (Fin 0)
           then JBool (field_of r Description \<noteq> JStr ''Opening Balance'') else JBool False)"
proof -
  from assms obtain ps where "r = JObj ps"
    by (cases r) (simp_all add: has_number_amount_def field_of_def)
  then have "get_prop r Description = Inr (field_of r Description)" by (simp add: field_of_def)
  then show ?thesis by (simp add: is_expense_def get_amount [OF assms] and_also_def)
qed

lemma spending_skip:
  assumes "is_expense h r = Inr v" and "\<not> truthy v"
  shows "spendingByCategory h (xs @ r # ys) = spendingByCategory h (xs @ ys)"
  by (simp add: spendingByCategory_def filter_r_skip [of "is_expense h" r v, OF assms])

lemma income_skip:
  assumes "has_number_amount r" and "\<not> num_lt (Fin 0) (amount_of r)"
  shows "totalIncome h (xs @ r # ys) = totalIncome h (xs @ ys)"
proof -
  have "filter_r (\<lambda>tx. bind_r (get_prop tx Amount) (js_gt_zero h)) (xs @ r # ys)
      = filter_r (\<lambda>tx. bind_r (get_prop tx Amount) (js_gt_zero h)) (xs @ ys)"
    by (rule filter_r_skip [where v = "JBool False" and r = r]) (simp_all add: get_amount assms)
  then show ?thesis by (simp add: totalIncome_def)
qed

lemma expenses_skip:
  assumes "has_number_amount r" and "\<not> num_lt (amount_of r) (Fin 0)"
  shows "totalExpenses h (xs @ r # ys) = totalExpenses h (xs @ ys)"
proof -
  have "filter_r (\<lambda>tx. bind_r (get_prop tx Amount) (js_lt_zero h)) (xs @ r # ys)
      = filter_r (\<lambda>tx. bind_r (get_prop tx Amount) (js_lt_zero h)) (xs @ ys)"
    by (rule filter_r_skip [where v = "JBool False" and r = r]) (simp_all add: get_amount assms)
  then show ?thesis by (simp add: totalExpenses_def)
qed

text \<open>
  Claim C3. A record whose description is \<^verbatim>\<open>Opening Balance\<close>, anywhere in a response
  array, is not in the Validator's output, and the output is what it is without the record; so
  \<open>totalIncome\<close>, \<open>totalExpenses\<close>, \<open>netSavings\<close> and the category totals of
  the validated list are those of the list without it. The category totals skip the record also
  on a list that was not validated, when its amount is a Number.
\<close>

theorem sentinel_excluded:
  assumes "field_of r Description = JStr ''Opening Balance''"
  shows "validTransactions (JArr (xs @ r # ys)) = validTransactions (JArr (xs @ ys))
    \<and> (\<exists>out. validTransactions (JArr (xs @ r # ys)) = Inr out \<and> r \<notin> set out)
    \<and> bind_r (validTransactions (JArr (xs @ r # ys))) (totalIncome h)
        = bind_r (validTransactions (JArr (xs @ ys))) (totalIncome h)
    \<and> bind_r (validTransactions (JArr (xs @ r # ys))) (totalExpenses h)
        = bind_r (validTransactions (JArr (xs @ ys))) (totalExpenses h)
    \<and> bind_r (validTransactions (JArr (xs @ r # ys))) (netSavings h)
        = bind_r (validTransactions (JArr (xs @ ys))) (netSavings h)
    \<and> bind_r (validTransactions (JArr (xs @ r # ys))) (spendingByCategory h)
        = bind_r (validTransactions (JArr (xs @ ys))) (spendingByCategory h)
    \<and> (has_number_amount r \<longrightarrow> spendingByCategory h (xs @ r # ys) = spendingByCategory h (xs @ ys))"
proof -
  from assms have n: "\<not> admitted r" by (simp add: admitted_def)
  then have v: "validTransactions (JArr (xs @ r # ys)) = validTransactions (JArr (xs @ ys))"
    by (simp add: validTransactions_filter)
  have "\<exists>out. validTransactions (JArr (xs @ r # ys)) = Inr out \<and> r \<notin> set out"
    using n by (simp add: validTransactions_filter)
  moreover have "spendingByCategory h (xs @ r # ys) = spendingByCategory h (xs @ ys)"
    if "has_number_amount r"
  proof (rule spending_skip)
    show "is_expense h r = Inr (JBool False)"
      using assms by (simp add: is_expense_number [OF that])
  qed simp
  ultimately show ?thesis by (simp add: v)
qed

text \<open>An instance of C3: an opening balance of 10000 between a salary and groceries.\<close>

theorem sentinel_excluded_witness:
  "validTransactions (JArr [salary, opening_balance, groceries]) = Inr [salary, groceries]
   \<and> bind_r (validTransactions (JArr [salary, opening_balance, groceries])) (totalIncome sample_host)
        = Inr (JNum (Fin 50000))
   \<and> spendingByCategory sample_host [salary, opening_balance, groceries]
        = spendingByCategory sample_host [salary, groceries]"
proof -
  have d: "field_of opening_balance Description = JStr ''Opening Balance''"
    by (simp add: field_of_def sample_defs)
  have n: "has_number_amount opening_balance"
    by (simp add: has_number_amount_def field_of_def sample_defs)
  have v: "validTransactions (JArr [salary, groceries]) = Inr [salary, groceries]"
    by (simp add: validTransactions_filter admission_defs sample_defs)
  have t: "totalIncome sample_host [salary, groceries] = Inr (JNum (Fin 50000))"
    by (simp add: totalIncome_def sample_defs sample_host_def)
  from sentinel_excluded [OF d, of "[salary]" "[groceries]" sample_host] n v t
  show ?thesis by simp
qed

text \<open>
  Claim C10. A non-null object with amount exactly \<open>0\<close>, a truthy date, description and
  category, and a description other than \<^verbatim>\<open>Opening Balance\<close> is admitted by the
  Validator, and in any list it changes none of \<open>totalIncome\<close>, \<open>totalExpenses\<close>,
  \<open>netSavings\<close> and the category totals: both filters compare strictly with \<open>0\<close>.
\<close>

theorem zero_amount_neutral:
  assumes "truthy r" and "typeof r = ''object''"
    and "field_of r Description \<noteq> JStr ''Opening Balance''"
    and "field_of r Amount = JNum (Fin 0)"
    and "truthy (field_of r Date)" and "truthy (field_of r Description)"
    and "truthy (field_of r Category)"
  shows "validTransactions (JArr (xs @ r # ys)) = Inr (filter admitted xs @ r # filter admitted ys)
    \<and> totalIncome h (xs @ r # ys) = totalIncome h (xs @ ys)
    \<and> totalExpenses h (xs @ r # ys) = totalExpenses h (xs @ ys)
    \<and> netSavings h (xs @ r # ys) = netSavings h (xs @ ys)
    \<and> spendingByCategory h (xs @ r # ys) = spendingByCategory h (xs @ ys)"
proof -
  from assms have a: "admitted r" by (simp add: admitted_def)
  from assms(4) have n: "has_number_amount r" and z: "amount_of r = Fin 0"
    by (simp_all add: has_number_amount_def amount_of_def)
  have i: "totalIncome h (xs @ r # ys) = totalIncome h (xs @ ys)"
    by (rule income_skip [OF n]) (simp add: z)
  have e: "totalExpenses h (xs @ r # ys) = totalExpenses h (xs @ ys)"
    by (rule expenses_skip [OF n]) (simp add: z)
  have "spendingByCategory h (xs @ r # ys) = spendingByCategory h (xs @ ys)"
  proof (rule spending_skip)
    show "is_expense h r = Inr (JBool False)" by (simp add: is_expense_number [OF n] z)
  qed simp
  then show ?thesis using a i e by (simp add: validTransactions_filter netSavings_def)
qed

text \<open>An instance of C10: a record of amount 0 between a salary and groceries.\<close>

theorem zero_amount_neutral_witness:
  "validTransactions (JArr [salary, refund, groceries]) = Inr [salary, refund, groceries]
   \<and> totalIncome sample_host [salary, refund, groceries] = Inr (JNum (Fin 50000))
   \<and> totalExpenses sample_host [salary, refund, groceries] = Inr (JNum (Fin (- 1500)))
   \<and> netSavings sample_host [salary, refund, groceries] = Inr (JNum (Fin 48500))
   \<and> spendingByCategory sample_host [salary, refund, groceries] = Inr [(''Food'', JNum (Fin 1500))]"
proof -
  have r: "truthy refund" "typeof refund = ''object''"
    "field_of refund Description \<noteq> JStr ''Opening Balance''"
    "field_of refund Amount = JNum (Fin 0)"
    "truthy (field_of refund Date)" "truthy (field_of refund Description)"
    "truthy (field_of refund Category)"
    by (simp_all add: field_of_def sample_defs)
  have s: "totalIncome sample_host [salary, groceries] = Inr (JNum (Fin 50000))"
    "totalExpenses sample_host [salary, groceries] = Inr (JNum (Fin (- 1500)))"
    "netSavings sample_host [salary, groceries] = Inr (JNum (Fin 48500))"
    by (simp_all add: netSavings_def totalIncome_def totalExpenses_def sample_defs sample_host_def)
  have c: "spendingByCategory sample_host [salary, groceries] = Inr [(''Food'', JNum (Fin 1500))]"
    by (simp add: spendingByCategory_def is_expense_def and_also_def add_to_bucket_def or_else_def
        acc_get_def acc_set_def object_prototype_methods_def sample_defs sample_host_def)
  have a: "filter admitted [salary] = [salary]" "filter admitted [groceries] = [groceries]"
    by (simp_all add: admission_defs sample_defs)
  from zero_amount_neutral [OF r, of "[salary]" "[groceries]" sample_host] s c a
  show ?thesis by simp
qed

text \<open>
  Claim C6. Validating the Validator's output again returns it unchanged, for every response
  body; so the summary and the category totals computed after a second validation are those
  computed after the first.
\<close>

theorem validation_idempotent:
  "bind_r (validTransactions body) (\<lambda>out. validTransactions (JArr out)) = validTransactions body
   \<and> bind_r (bind_r (validTransactions body) (\<lambda>out. validTransactions (JArr out))) (totalIncome h)
       = bind_r (validTransactions body) (totalIncome h)
   \<and> bind_r (bind_r (validTransactions body) (\<lambda>out. validTransactions (JArr out))) (totalExpenses h)
       = bind_r (validTransactions body) (totalExpenses h)
   \<and> bind_r (bind_r (validTransactions body) (\<lambda>out. validTransactions (JArr out))) (netSavings h)
       = bind_r (validTransactions body) (netSavings h)
   \<and> bind_r (bind_r (validTransactions body) (\<lambda>out. validTransactions (JArr out))) (spendingByCategory h)
       = bind_r (validTransactions body) (spendingByCategory h)"
proof -
  have "bind_r (validTransactions body) (\<lambda>out. validTransactions (JArr out)) = validTransactions body"
    by (cases body) (simp_all add: validTransactions_filter)
  then show ?thesis by simp
qed

text \<open>An instance of C6.\<close>

theorem validation_idempotent_witness:
  "validTransactions (JArr [JNull, groceries, opening_balance]) = Inr [groceries]
   \<and> validTransactions (JArr [groceries]) = Inr [groceries]"
proof -
  have "validTransactions (JArr [JNull, groceries, opening_balance]) = Inr [groceries]"
    by (simp add: validTransactions_filter admission_defs sample_defs)
  with validation_idempotent [of "JArr [JNull, groceries, opening_balance]" sample_host]
  show ?thesis by simp
qed

section \<open>Claims about the category totals\<close>

text \<open>
  On records with Number amounts and plain labels the chart's totals are those of the
  specification, and each is at least \<open>0\<close>, for every engine whose rounding keeps a sum
  of non-negative Numbers non-negative.
\<close>

lemma is_expense_counted:
  assumes "has_number_amount tx"
  shows "is_expense h tx = Inr (JBool (counted tx))"
  by (simp add: is_expense_number [OF assms] counted_def)

lemma filter_expenses:
  assumes "\<And>x. x \<in> set txs \<Longrightarrow> has_number_amount x"
  shows "filter_r (is_expense h) txs = Inr (filter counted txs)"
  by (rule filter_r_pure) (simp add: is_expense_counted assms)

lemma add_nonneg:
  assumes "\<And>q. 0 \<le> q \<Longrightarrow> nonneg_number (JNum (round_double h q))"
    and "nonneg_number (JNum a)" and "nonneg_number (JNum b)"
  shows "nonneg_number (JNum (num_add h a b))"
  using assms by (cases a; cases b) simp_all

lemma abs_nonneg: "num_lt a (Fin 0) \<Longrightarrow> nonneg_number (JNum (num_abs a))"
  by (cases a) simp_all

lemma or_else_nonneg: "nonneg_number (JNum n) \<Longrightarrow> or_else (JNum n) (JNum (Fin 0)) = JNum n"
  by (cases n) (auto simp: or_else_def)

lemma key_of_label:
  assumes "plain_label tx"
  shows "to_str h (or_else (field_of tx Category) (JStr ''Other'')) = Inr (label_of tx)"
  using assms by (cases "field_of tx Category") (auto simp: plain_label_def label_of_def or_else_def)

lemma read_bucket:
  assumes "tidy acc" and "k \<notin> set object_prototype_methods" and "k \<noteq> ''__proto__''"
  shows "or_else (acc_get acc k) (JNum (Fin 0)) = JNum (held acc k)"
proof (cases "map_of acc k")
  case None
  with assms show ?thesis by (simp add: acc_get_def held_def or_else_def)
next
  case (Some v)
  with assms(1) obtain n where "v = JNum n" "nonneg_number (JNum n)" by (auto simp: tidy_def)
  with Some show ?thesis by (simp add: acc_get_def held_def or_else_nonneg)
qed

lemma held_nonneg:
  assumes "tidy acc"
  shows "nonneg_number (JNum (held acc k))"
proof (cases "map_of acc k")
  case None
  then show ?thesis by (simp add: held_def)
next
  case (Some v)
  with assms obtain n where "v = JNum n" "nonneg_number (JNum n)" by (auto simp: tidy_def)
  with Some show ?thesis by (simp add: held_def)
qed

lemma add_to_bucket_plain:
  assumes "tidy acc" and "has_number_amount tx" and "plain_label tx"
  shows "add_to_bucket h acc tx
     = Inr (AList.update (label_of tx)
         (JNum (num_add h (held acc (label_of tx)) (num_abs (amount_of tx)))) acc)"
proof -
  from assms(2) obtain ps where "tx = JObj ps"
    by (cases tx) (simp_all add: has_number_amount_def field_of_def)
  then have c: "get_prop tx Category = Inr (field_of tx Category)" by (simp add: field_of_def)
  from assms(3) have k: "label_of tx \<notin> set object_prototype_methods" "label_of tx \<noteq> ''__proto__''"
    by (simp_all add: plain_label_def)
  show ?thesis
    by (simp add: add_to_bucket_def c key_of_label [OF assms(3)] get_amount [OF assms(2)]
        read_bucket [OF assms(1) k] acc_set_def k)
qed

lemma pour:
  assumes r: "\<And>q. 0 \<le> q \<Longrightarrow> nonneg_number (JNum (round_double h q))"
  shows "tidy acc \<Longrightarrow> (\<And>x. x \<in> set es \<Longrightarrow> has_number_amount x \<and> plain_label x \<and> counted x) \<Longrightarrow>
    \<exists>acc'. reduce_r (add_to_bucket h) acc es = Inr acc' \<and> tidy acc' \<and>
      (\<forall>k. map_of acc' k =
         (if filter (\<lambda>x. label_of x = k) es = [] then map_of acc k
          else Some (JNum (foldl (num_add h) (held acc k)
                 (map (\<lambda>x. num_abs (amount_of x)) (filter (\<lambda>x. label_of x = k) es))))))"
proof (induction es arbitrary: acc)
  case Nil
  then show ?case by simp
next
  case (Cons tx es)
  let ?k = "label_of tx"
  let ?v = "num_add h (held acc ?k) (num_abs (amount_of tx))"
  let ?acc = "AList.update ?k (JNum ?v) acc"
  from Cons.prems have tx: "has_number_amount tx" "plain_label tx" "counted tx" by simp_all
  have step: "add_to_bucket h acc tx = Inr ?acc"
    by (rule add_to_bucket_plain [OF Cons.prems(1) tx(1,2)])
  from tx(3) have "num_lt (amount_of tx) (Fin 0)" by (simp add: counted_def)
  then have "nonneg_number (JNum (num_abs (amount_of tx)))" by (rule abs_nonneg)
  then have v: "nonneg_number (JNum ?v)"
    by (intro add_nonneg r held_nonneg Cons.prems(1))
  have t: "tidy ?acc"
    using Cons.prems(1) v by (auto simp: tidy_def update_conv')
  have "\<And>x. x \<in> set es \<Longrightarrow> has_number_amount x \<and> plain_label x \<and> counted x"
    using Cons.prems(2) by simp
  from Cons.IH [OF t this] obtain acc' where
    a: "reduce_r (add_to_bucket h) ?acc es = Inr acc'" "tidy acc'"
    and m: "\<And>k. map_of acc' k =
         (if filter (\<lambda>x. label_of x = k) es = [] then map_of ?acc k
          else Some (JNum (foldl (num_add h) (held ?acc k)
                 (map (\<lambda>x. num_abs (amount_of x)) (filter (\<lambda>x. label_of x = k) es)))))"
    by blast
  have h1: "held ?acc ?k = ?v" by (simp add: held_def update_conv')
  have h2: "\<And>k. k \<noteq> ?k \<Longrightarrow> held ?acc k = held acc k" by (simp add: held_def update_conv')
  have "map_of acc' k =
         (if filter (\<lambda>x. label_of x = k) (tx # es) = [] then map_of acc k
          else Some (JNum (foldl (num_add h) (held acc k)
                 (map (\<lambda>x. num_abs (amount_of x)) (filter (\<lambda>x. label_of x = k) (tx # es))))))" for k
  proof (cases "k = ?k")
    case True
    then show ?thesis by (simp add: m h1 update_conv')
  next
    case False
    then have "label_of tx \<noteq> k" by blast
    then show ?thesis using False by (simp add: m h2 update_conv')
  qed
  with a step show ?case by simp
qed

lemma spending_plain:
  assumes "\<forall>tx \<in> set txs. has_number_amount tx \<and> plain_label tx"
    and "\<forall>q. 0 \<le> q \<longrightarrow> nonneg_number (JNum (round_double h q))"
  shows "\<exists>acc. spendingByCategory h txs = Inr acc
      \<and> (\<forall>k. map_of acc k = bucket_sum h k txs)
      \<and> (\<forall>k v. map_of acc k = Some v \<longrightarrow> nonneg_number v)"
proof -
  have f: "filter_r (is_expense h) txs = Inr (filter counted txs)"
    by (rule filter_expenses) (use assms(1) in blast)
  have "tidy []" by (simp add: tidy_def)
  moreover have "\<And>x. x \<in> set (filter counted txs) \<Longrightarrow> has_number_amount x \<and> plain_label x \<and> counted x"
    using assms(1) by simp
  ultimately obtain acc where
    a: "reduce_r (add_to_bucket h) [] (filter counted txs) = Inr acc" "tidy acc"
    and m: "\<And>k. map_of acc k =
         (if filter (\<lambda>x. label_of x = k) (filter counted txs) = [] then map_of [] k
          else Some (JNum (foldl (num_add h) (held [] k)
                 (map (\<lambda>x. num_abs (amount_of x)) (filter (\<lambda>x. label_of x = k) (filter counted txs))))))"
    using pour [of h "[]" "filter counted txs"] assms(2) by blast
  have "map_of acc k = bucket_sum h k txs" for k
    by (simp add: m bucket_sum_def sum_of_def held_def Let_def conj_commute)
  moreover have "nonneg_number v" if "map_of acc k = Some v" for k v
    using a(2) that by (auto simp: tidy_def)
  ultimately show ?thesis using a(1) f by (simp add: spendingByCategory_def)
qed

text \<open>
  Claim C5, at the record \<open>books\<close>: an expense of 5 in the category
  \<^verbatim>\<open>constructor\<close>. The Validator admits it. The accumulator \<^verbatim>\<open>{}\<close> has
  no own property of that name and finds the inherited \<^verbatim>\<open>Object\<close> function, which is
  truthy, so \<^verbatim>\<open>(acc[category] || 0) + Math.abs(tx.amount)\<close> concatenates the text
  of the function and of \<open>5\<close>: the bucket holds a string, not the sum of the absolute
  amounts, and not a value at least \<open>0\<close>. This holds for every engine \<open>h\<close>.
\<close>

theorem category_named_constructor:
  "validTransactions (JArr [books]) = Inr [books]
   \<and> spendingByCategory h [books]
       = Inr [(''constructor'', JStr (function_source h ''constructor'' @ number_to_string h (Fin 5)))]
   \<and> \<not> nonneg_number (JStr (function_source h ''constructor'' @ number_to_string h (Fin 5)))"
proof -
  have admitted: "validTransactions (JArr [books]) = Inr [books]"
    by (simp add: validTransactions_filter admission_defs sample_defs)
  have expense: "filter_r (is_expense h) [books] = Inr [books]"
    by (simp add: is_expense_def and_also_def sample_defs)
  have inherited: "acc_get [] ''constructor'' = JFun ''constructor''"
    by (simp add: acc_get_def object_prototype_methods_def)
  have "add_to_bucket h [] books
      = Inr [(''constructor'', JStr (function_source h ''constructor'' @ number_to_string h (Fin 5)))]"
    by (simp add: add_to_bucket_def or_else_def inherited acc_set_def js_plus_def sample_defs)
  with expense have "spendingByCategory h [books]
      = Inr [(''constructor'', JStr (function_source h ''constructor'' @ number_to_string h (Fin 5)))]"
    by (simp add: spendingByCategory_def)
  with admitted show ?thesis by simp
qed

section \<open>Claims about the session\<close>

text \<open>
  Claim C9. From every session state, selecting a file records the new handle and clears
  \<open>transactions\<close> and \<open>error\<close>; \<open>loading\<close> and \<open>password\<close> stay as they were.
\<close>

theorem file_selection:
  "selectedFile (handleFileChange picked s) = picked
   \<and> transactions (handleFileChange picked s) = []
   \<and> error (handleFileChange picked s) = None
   \<and> loading (handleFileChange picked s) = loading s
   \<and> password (handleFileChange picked s) = password s"
  by (simp add: handleFileChange_def)

text \<open>
  Claim C8. From every session state with no file selected, a submission posts no request (and
  its result does not depend on the transport), sets \<open>error\<close> to
  \<^verbatim>\<open>Please select a file first.\<close> and leaves \<open>loading\<close>, \<open>transactions\<close>,
  \<open>password\<close> and the absent file as they were.
\<close>

theorem submit_without_file:
  assumes "selectedFile s = None"
  shows "sent (handleSubmit h post s) = []
   \<and> handleSubmit h post s = handleSubmit h post' s
   \<and> error (final (handleSubmit h post s)) = Some ''Please select a file first.''
   \<and> loading (final (handleSubmit h post s)) = loading s
   \<and> transactions (final (handleSubmit h post s)) = transactions s
   \<and> password (final (handleSubmit h post s)) = password s
   \<and> selectedFile (final (handleSubmit h post s)) = selectedFile s
   \<and> uncaught (handleSubmit h post s) = None"
  using assms by (simp add: handleSubmit_def)

text \<open>An instance of C8: a submission from the initial state.\<close>

theorem submit_without_file_witness:
  "sent (handleSubmit sample_host (\<lambda>r. Fulfilled (JArr [salary])) initial) = []
   \<and> final (handleSubmit sample_host (\<lambda>r. Fulfilled (JArr [salary])) initial)
       = initial\<lparr>error := Some ''Please select a file first.''\<rparr>"
proof -
  have n: "selectedFile initial = None" by (simp add: initial_def)
  from submit_without_file [OF n, of sample_host "\<lambda>r. Fulfilled (JArr [salary])"]
  show ?thesis by (simp add: initial_def)
qed

lemma optional_detail_field: "optional_detail d = Inr (field_of d Detail)"
  by (cases d) (simp_all add: optional_detail_def field_of_def)

lemma server_message:
  assumes "\<not> err_cancel err" and "err_code err \<noteq> Some ''ECONNABORTED''" and "err_response err = Some r"
  shows "errorMessage h err =
     map_r (\<lambda>t. ''Error: '' @ t)
       (to_str h (or_else (field_of (resp_data r) Detail)
          (JStr (''Server responded with status '' @ decimal (resp_status r)))))"
  using assms unfolding errorMessage_def optional_detail_field
  by (simp only: if_False option.case bind_r_simps)

text \<open>
  What the handler does on a rejection, class by class. From every session state with a file
  selected it leaves \<open>transactions\<close> empty and \<open>loading\<close> false, and it sets \<open>error\<close>
  to \<^verbatim>\<open>Request cancelled.\<close> on a cancellation, to the time-out message on a time-out,
  to \<^verbatim>\<open>Error: \<close> and the \<^verbatim>\<open>detail\<close> of the body when the server answered with
  a detail that is a non-empty string, to \<^verbatim>\<open>Error: Server responded with status\<close> and the
  status code when the server answered with no detail or a falsy one, to the connection message
  when no response came, and to the set-up message with \<^verbatim>\<open>err.message\<close> otherwise.
\<close>

lemma failure_handling:
  assumes "selectedFile s = Some f"
    and "post \<lparr>req_file = f, req_password = password s\<rparr> = Rejected err"
  shows "loading (final (handleSubmit h post s)) = False
   \<and> transactions (final (handleSubmit h post s)) = []
   \<and> selectedFile (final (handleSubmit h post s)) = Some f
   \<and> password (final (handleSubmit h post s)) = password s
   \<and> sent (handleSubmit h post s) = [\<lparr>req_file = f, req_password = password s\<rparr>]
   \<and> (err_cancel err \<longrightarrow>
        error (final (handleSubmit h post s)) = Some ''Request cancelled.'')
   \<and> (\<not> err_cancel err \<and> err_code err = Some ''ECONNABORTED'' \<longrightarrow>
        error (final (handleSubmit h post s)) =
          Some ''The request timed out (90s). The file might be too large or the AI analysis is taking too long.'')
   \<and> (\<forall>r d. \<not> err_cancel err \<and> err_code err \<noteq> Some ''ECONNABORTED'' \<and> err_response err = Some r
          \<and> field_of (resp_data r) Detail = JStr d \<and> d \<noteq> [] \<longrightarrow>
        error (final (handleSubmit h post s)) = Some (''Error: '' @ d))
   \<and> (\<forall>r. \<not> err_cancel err \<and> err_code err \<noteq> Some ''ECONNABORTED'' \<and> err_response err = Some r
          \<and> \<not> truthy (field_of (resp_data r) Detail) \<longrightarrow>
        error (final (handleSubmit h post s)) =
          Some (''Error: Server responded with status '' @ decimal (resp_status r)))
   \<and> (\<not> err_cancel err \<and> err_code err \<noteq> Some ''ECONNABORTED'' \<and> err_response err = None
          \<and> err_request err \<longrightarrow>
        error (final (handleSubmit h post s)) =
          Some ''Could not connect to the backend server. Please ensure it is running.'')
   \<and> (\<not> err_cancel err \<and> err_code err \<noteq> Some ''ECONNABORTED'' \<and> err_response err = None
          \<and> \<not> err_request err \<longrightarrow>
        error (final (handleSubmit h post s)) =
          Some (''An error occurred during the request setup: '' @ err_message err))"
proof -
  have stored: "error (final (handleSubmit h post s)) = Some msg" if "errorMessage h err = Inr msg" for msg
    using assms that by (simp add: handleSubmit_def on_catch_def)
  have state: "loading (final (handleSubmit h post s)) = False
   \<and> transactions (final (handleSubmit h post s)) = []
   \<and> selectedFile (final (handleSubmit h post s)) = Some f
   \<and> password (final (handleSubmit h post s)) = password s
   \<and> sent (handleSubmit h post s) = [\<lparr>req_file = f, req_password = password s\<rparr>]"
    using assms by (cases "errorMessage h err") (simp_all add: handleSubmit_def on_catch_def Let_def)
  have cancelled: "errorMessage h err = Inr ''Request cancelled.''" if "err_cancel err"
    using that by (simp add: errorMessage_def)
  have timed_out: "errorMessage h err =
      Inr ''The request timed out (90s). The file might be too large or the AI analysis is taking too long.''"
    if "\<not> err_cancel err" "err_code err = Some ''ECONNABORTED''"
    using that by (simp add: errorMessage_def)
  have detail: "errorMessage h err = Inr (''Error: '' @ d)"
    if "\<not> err_cancel err" "err_code err \<noteq> Some ''ECONNABORTED''" "err_response err = Some r"
      "field_of (resp_data r) Detail = JStr d" "d \<noteq> []" for r d
    using that(4,5) by (simp add: server_message [OF that(1,2,3)] or_else_def)
  have status: "errorMessage h err =
      Inr (''Error: Server responded with status '' @ decimal (resp_status r))"
    if "\<not> err_cancel err" "err_code err \<noteq> Some ''ECONNABORTED''" "err_response err = Some r"
      "\<not> truthy (field_of (resp_data r) Detail)" for r
    using that(4) by (simp add: server_message [OF that(1,2,3)] or_else_def)
  have no_answer: "errorMessage h err =
      Inr ''Could not connect to the backend server. Please ensure it is running.''"
    if "\<not> err_cancel err" "err_code err \<noteq> Some ''ECONNABORTED''" "err_response err = None"
      "err_request err"
    using that by (simp add: errorMessage_def)
  have not_sent: "errorMessage h err =
      Inr (''An error occurred during the request setup: '' @ err_message err)"
    if "\<not> err_cancel err" "err_code err \<noteq> Some ''ECONNABORTED''" "err_response err = None"
      "\<not> err_request err"
    using that by (simp add: errorMessage_def)
  show ?thesis
    using state stored [OF cancelled] stored [OF timed_out] stored [OF detail] stored [OF status]
      stored [OF no_answer] stored [OF not_sent]
    by blast
qed

text \<open>An instance: the server answers 401 with the detail \<^verbatim>\<open>Invalid password\<close>.\<close>

lemma failure_handling_example:
  "error (final (handleSubmit sample_host (\<lambda>r. Rejected wrong_password) ready))
     = Some ''Error: Invalid password''
   \<and> transactions (final (handleSubmit sample_host (\<lambda>r. Rejected wrong_password) ready)) = []
   \<and> loading (final (handleSubmit sample_host (\<lambda>r. Rejected wrong_password) ready)) = False
   \<and> sent (handleSubmit sample_host (\<lambda>r. Rejected wrong_password) ready)
     = [\<lparr>req_file = File ''statement.pdf'', req_password = ''secret''\<rparr>]"
proof -
  have f: "selectedFile ready = Some (File ''statement.pdf'')" by (simp add: session_defs)
  have w: "password ready = ''secret''" by (simp add: session_defs)
  have p: "(\<lambda>r. Rejected wrong_password) \<lparr>req_file = File ''statement.pdf'', req_password = password ready\<rparr>
      = Rejected wrong_password" by simp
  have e: "\<not> err_cancel wrong_password" "err_code wrong_password \<noteq> Some ''ECONNABORTED''"
    "err_response wrong_password
       = Some \<lparr>resp_status = 401, resp_data = JObj [(''detail'', JStr ''Invalid password'')]\<rparr>"
    "field_of (resp_data \<lparr>resp_status = 401, resp_data = JObj [(''detail'', JStr ''Invalid password'')]\<rparr>) Detail
       = JStr ''Invalid password''"
    by (simp_all add: session_defs field_of_def)
  from failure_handling [OF f p, of sample_host] e w
  show ?thesis by simp
qed

text \<open>
  Claim C7, at two failures a server can report. The claim: on every failure the handler sets
  \<open>error\<close> to a classified, human-readable message, which for a failure the server reported is
  the \<^verbatim>\<open>detail\<close> of the body verbatim when there is one. The handler interpolates the
  detail into a template literal, which converts it to a string. A 422 response whose detail is
  an array of objects (\<open>field_required\<close>) is therefore shown as
  \<^verbatim>\<open>Error: [object Object]\<close>, which is not the detail; and a detail that is an object with
  an own member \<^verbatim>\<open>toString\<close> (\<open>odd_detail\<close>) makes the conversion throw inside the
  \<^verbatim>\<open>catch\<close> clause, so that \<^verbatim>\<open>setError\<close> never runs: \<open>error\<close> stays cleared
  and the error escapes the handler. Only the \<^verbatim>\<open>finally\<close> clause still runs. This
  holds for every engine \<open>h\<close>.
\<close>

theorem failure_detail_not_text:
  "error (final (handleSubmit h (\<lambda>r. Rejected field_required) ready))
     = Some ''Error: [object Object]''
   \<and> error (final (handleSubmit h (\<lambda>r. Rejected odd_detail) ready)) = None
   \<and> uncaught (handleSubmit h (\<lambda>r. Rejected odd_detail) ready) = Some TypeError
   \<and> loading (final (handleSubmit h (\<lambda>r. Rejected odd_detail) ready)) = False"
proof -
  have shown: "errorMessage h field_required = Inr ''Error: [object Object]''"
    by (simp add: errorMessage_def optional_detail_def or_else_def session_defs)
  have raised: "errorMessage h odd_detail = Inl TypeError"
    by (simp add: errorMessage_def optional_detail_def or_else_def session_defs)
  have chosen: "selectedFile ready = Some (File ''statement.pdf'')" by (simp add: session_defs)
  show ?thesis
    by (simp add: handleSubmit_def on_catch_def chosen shown raised)
qed

end
